theory Spec2Isabelle
  imports Main
begin

section \<open>Python values used by the two scrapers\<close>

text \<open>
  A Python \<open>str\<close> is a sequence of Unicode code points; \<open>len\<close> and slicing count code
  points. It is modelled as a list of code points, so that the pictographs the scripts
  print are single elements. \<open>ascii\<close> embeds an ASCII literal.
\<close>

type_synonym pystr = "nat list"

definition ascii :: "string \<Rightarrow> pystr" where
  "ascii s = map of_char s"

text \<open>\<open>str(n)\<close> for an integer, as an f-string prints it.\<close>

fun str_nat :: "nat \<Rightarrow> pystr" where
  "str_nat n = (if n < 10 then [48 + n] else str_nat (n div 10) @ [48 + n mod 10])"

definition str_int :: "int \<Rightarrow> pystr" where
  "str_int i = (if i < 0 then 45 # str_nat (nat (- i)) else str_nat (nat i))"

text \<open>
  \<open>s.replace(old, new)\<close>: every non-overlapping occurrence of \<open>old\<close>, scanning from the
  left, is replaced. With an empty \<open>old\<close>, \<open>new\<close> is put before every character and at
  the end.
\<close>

fun str_replace :: "'a list \<Rightarrow> 'a list \<Rightarrow> 'a list \<Rightarrow> 'a list" where
  "str_replace [] new s = new @ concat (map (\<lambda>c. c # new) s)"
| "str_replace old new [] = []"
| "str_replace old new (c # s) =
     (if take (length old) (c # s) = old
      then new @ str_replace old new (drop (length old) (c # s))
      else c # str_replace old new s)"

text \<open>\<open>old in s\<close>: \<open>old\<close> occurs in \<open>s\<close> as a substring.\<close>

fun contains_str :: "'a list \<Rightarrow> 'a list \<Rightarrow> bool" where
  "contains_str old [] \<longleftrightarrow> old = []"
| "contains_str old (c # s) \<longleftrightarrow> take (length old) (c # s) = old \<or> contains_str old s"

text \<open>Exceptions that leave a function of the scripts.\<close>

datatype py_error =
    ZeroDivisionError
  | Propagated pystr

text \<open>
  The dictionaries the probing functions build. Every key is optional: \<open>None\<close> is an
  absent key, so \<open>d.get(k)\<close> is the field and \<open>d.get(k, dflt)\<close> is the field with a
  default.
\<close>

record probe_result =
  url :: "pystr option"
  status_code :: "int option"
  success :: "bool option"
  content_length :: "nat option"
  content_preview :: "pystr option"
  headers :: "(pystr \<times> pystr) list option"
  error :: "pystr option"
  original_url :: "pystr option"

definition empty_result :: probe_result where
  "empty_result = \<lparr>url = None, status_code = None, success = None, content_length = None,
     content_preview = None, headers = None, error = None, original_url = None\<rparr>"

text \<open>
  A dictionary used as a tally (\<open>error_counts\<close>, \<open>status_codes\<close>) keeps its insertion
  order; its keys are strings or integers.
\<close>

datatype pykey = KStr pystr | KInt int

fun dict_get :: "('k \<times> 'v) list \<Rightarrow> 'k \<Rightarrow> 'v \<Rightarrow> 'v" where
  "dict_get [] k dflt = dflt"
| "dict_get ((k', v) # d) k dflt = (if k' = k then v else dict_get d k dflt)"

fun dict_set :: "('k \<times> 'v) list \<Rightarrow> 'k \<Rightarrow> 'v \<Rightarrow> ('k \<times> 'v) list" where
  "dict_set [] k v = [(k, v)]"
| "dict_set ((k', v') # d) k v = (if k' = k then (k, v) # d else (k', v') # dict_set d k v)"

section \<open>simple\_scraper.py\<close>

subsection \<open>\<open>test_url\<close>\<close>

text \<open>
  What \<open>urllib.request.urlopen(url, timeout=15)\<close> and the reading of the body do, seen
  from \<open>test_url\<close>:
  \<^item> \<open>Response code content hdrs\<close>: the \<open>with\<close> block runs to its \<open>return\<close>;
    \<open>content\<close> is the decoded body;
  \<^item> \<open>HTTPError code reason body\<close>: an \<open>HTTPError\<close> is raised; \<open>body\<close> is \<open>None\<close>
    when the exception has no \<open>read\<close> attribute, and otherwise what \<open>e.read()\<close> does
    when the handler calls it;
  \<^item> \<open>OtherException msg\<close>: any other \<open>Exception\<close> is raised inside the \<open>try\<close> block,
    with \<open>str(e) = msg\<close>.
\<close>

datatype read_outcome = ReadOk pystr | ReadRaises pystr

datatype urlopen_outcome =
    Response int pystr "(pystr \<times> pystr) list"
  | HTTPError int pystr "read_outcome option"
  | OtherException pystr

definition test_url :: "(pystr \<Rightarrow> urlopen_outcome) \<Rightarrow> pystr \<Rightarrow> py_error + probe_result" where
  "test_url urlopen u =
     (case urlopen u of
        Response code content hdrs \<Rightarrow>
          Inr (empty_result\<lparr>url := Some u, status_code := Some code, success := Some True,
                 content_length := Some (length content),
                 content_preview :=
                   Some (if content \<noteq> [] then take 300 content else ascii ''Empty response''),
                 headers := Some hdrs\<rparr>)
      | HTTPError code reason body \<Rightarrow>
          (case body of
             None \<Rightarrow>
               Inr (empty_result\<lparr>url := Some u, status_code := Some code, success := Some False,
                      error := Some (ascii ''HTTP '' @ str_int code @ ascii '': '' @ reason),
                      content_preview := Some (ascii ''No content'')\<rparr>)
           | Some (ReadOk b) \<Rightarrow>
               Inr (empty_result\<lparr>url := Some u, status_code := Some code, success := Some False,
                      error := Some (ascii ''HTTP '' @ str_int code @ ascii '': '' @ reason),
                      content_preview := Some (take 200 b)\<rparr>)
           | Some (ReadRaises msg) \<Rightarrow> Inl (Propagated msg))
      | OtherException msg \<Rightarrow>
          Inr (empty_result\<lparr>url := Some u, success := Some False, error := Some msg,
                 content_preview := Some (ascii ''No content'')\<rparr>))"

subsection \<open>\<open>analyze_errors\<close>\<close>

definition error_key :: "probe_result \<Rightarrow> pykey" where
  "error_key r = (case error r of None \<Rightarrow> KStr (ascii ''Unknown'') | Some e \<Rightarrow> KStr e)"

definition status_key :: "probe_result \<Rightarrow> pykey" where
  "status_key r = (case status_code r of None \<Rightarrow> KStr (ascii ''Unknown'') | Some c \<Rightarrow> KInt c)"

fun tally :: "probe_result list \<Rightarrow> (pykey \<times> nat) list \<Rightarrow> (pykey \<times> nat) list
    \<Rightarrow> (pykey \<times> nat) list \<times> (pykey \<times> nat) list" where
  "tally [] error_counts status_codes = (error_counts, status_codes)"
| "tally (r # rs) error_counts status_codes =
     tally rs
       (dict_set error_counts (error_key r) (dict_get error_counts (error_key r) 0 + 1))
       (dict_set status_codes (status_key r) (dict_get status_codes (status_key r) 0 + 1))"

record error_analysis =
  error_types :: "(pykey \<times> nat) list"
  status_codes :: "(pykey \<times> nat) list"
  total_failures :: nat

definition analyze_errors :: "probe_result list \<Rightarrow> error_analysis" where
  "analyze_errors failed_results =
     (case tally failed_results [] [] of
        (error_counts, codes) \<Rightarrow>
          \<lparr>error_types = error_counts, status_codes = codes,
           total_failures = length failed_results\<rparr>)"

subsection \<open>\<open>explore_site\<close>\<close>

text \<open>
  The network may answer the same URL differently each time, so a run is given
  \<open>net n u\<close>: what the \<open>n\<close>-th request of the run does when it asks for \<open>u\<close>.
\<close>

definition test_urls :: "pystr \<Rightarrow> pystr list" where
  "test_urls base_domain =
     [ascii ''https://'' @ base_domain,
      ascii ''http://'' @ base_domain,
      ascii ''https://'' @ base_domain @ ascii ''/'',
      ascii ''https://'' @ base_domain @ ascii ''/index.html'',
      ascii ''https://'' @ base_domain @ ascii ''/index.php'',
      ascii ''https://'' @ base_domain @ ascii ''/home'',
      ascii ''https://'' @ base_domain @ ascii ''/main'',
      ascii ''https://'' @ base_domain @ ascii ''/products'',
      ascii ''https://'' @ base_domain @ ascii ''/items'',
      ascii ''https://'' @ base_domain @ ascii ''/guide'',
      ascii ''https://'' @ base_domain @ ascii ''/buyers-guide'',
      ascii ''https://'' @ base_domain @ ascii ''/d2p'',
      ascii ''https://'' @ base_domain @ ascii ''/api'',
      ascii ''https://'' @ base_domain @ ascii ''/search'',
      ascii ''https://'' @ base_domain @ ascii ''/category'',
      ascii ''https://'' @ base_domain @ ascii ''/filter'',
      ascii ''https://'' @ base_domain @ ascii ''/all'',
      ascii ''https://'' @ base_domain @ ascii ''/page/1'',
      ascii ''https://'' @ base_domain @ ascii ''/page1'',
      ascii ''https://'' @ base_domain @ ascii ''/p/1'']"

text \<open>\<open>result.get('success') and result.get('status_code') == 200\<close>\<close>

definition is_working :: "probe_result \<Rightarrow> bool" where
  "is_working r \<longleftrightarrow> success r = Some True \<and> status_code r = Some 200"

text \<open>
  The \<open>for\<close> loop of \<open>explore_site\<close>, with its two lists as accumulators. An exception
  that leaves \<open>test_url\<close> leaves the loop.
\<close>

fun explore_loop :: "(nat \<Rightarrow> pystr \<Rightarrow> urlopen_outcome) \<Rightarrow> nat \<Rightarrow> pystr list
    \<Rightarrow> probe_result list \<Rightarrow> probe_result list
    \<Rightarrow> py_error + (probe_result list \<times> probe_result list)" where
  "explore_loop net n [] results working = Inr (results, working)"
| "explore_loop net n (u # us) results working =
     (case test_url (net n) u of
        Inl e \<Rightarrow> Inl e
      | Inr result \<Rightarrow>
          explore_loop net (Suc n) us (results @ [result])
            (if is_working result then working @ [result] else working))"

record explore_summary =
  total_tested :: nat
  explore_successful :: nat
  explore_failed :: int

record exploration_report =
  all_tests :: "probe_result list"
  working_endpoints :: "probe_result list"
  explore_summary :: explore_summary

text \<open>\<open>explore_site\<close> from the loop on: the candidate list is a parameter here.\<close>

definition explore_urls :: "(nat \<Rightarrow> pystr \<Rightarrow> urlopen_outcome) \<Rightarrow> pystr list
    \<Rightarrow> py_error + exploration_report" where
  "explore_urls net urls =
     (case explore_loop net 0 urls [] [] of
        Inl e \<Rightarrow> Inl e
      | Inr (results, working) \<Rightarrow>
          Inr \<lparr>all_tests = results, working_endpoints = working,
               explore_summary =
                 \<lparr>total_tested = length results,
                  explore_successful = length working,
                  explore_failed = int (length results) - int (length working)\<rparr>\<rparr>)"

definition explore_site :: "(nat \<Rightarrow> pystr \<Rightarrow> urlopen_outcome) \<Rightarrow> pystr
    \<Rightarrow> py_error + exploration_report" where
  "explore_site net base_domain = explore_urls net (test_urls base_domain)"

subsection \<open>\<open>scrape_original_urls\<close>\<close>

definition https_url :: "pystr \<Rightarrow> pystr" where
  "https_url u = str_replace (ascii ''http://'') (ascii ''https://'') u"

text \<open>The \<open>for\<close> loop of \<open>scrape_original_urls\<close>, with its three lists as accumulators.\<close>

fun retest_loop :: "(nat \<Rightarrow> pystr \<Rightarrow> urlopen_outcome) \<Rightarrow> nat \<Rightarrow> pystr list
    \<Rightarrow> probe_result list \<Rightarrow> probe_result list \<Rightarrow> probe_result list
    \<Rightarrow> py_error + (probe_result list \<times> probe_result list \<times> probe_result list)" where
  "retest_loop net n [] results successful failed = Inr (results, successful, failed)"
| "retest_loop net n (u # us) results successful failed =
     (case test_url (net n) (https_url u) of
        Inl e \<Rightarrow> Inl e
      | Inr r \<Rightarrow>
          (let result = r\<lparr>original_url := Some u\<rparr> in
           if is_working result
           then retest_loop net (Suc n) us (results @ [result]) (successful @ [result]) failed
           else retest_loop net (Suc n) us (results @ [result]) successful (failed @ [result])))"

record retest_summary =
  summary_total :: nat
  summary_successful :: nat
  summary_failed :: nat
  success_rate :: pystr

record retest_report =
  all_results :: "probe_result list"
  successful :: "probe_result list"
  failed :: "probe_result list"
  summary :: retest_summary

text \<open>
  The success rate is computed in floating point and printed with one decimal:
  \<open>f"{(len(successful)/len(results)*100):.1f}%"\<close>. The division raises
  \<open>ZeroDivisionError\<close> when \<open>len(results)\<close> is 0; for a divisor that is not 0 the
  printed text is \<open>format_rate (len(successful)) (len(results))\<close>, a parameter of the
  model, since the rounding is that of binary floating point.
\<close>

definition scrape_original_urls :: "(nat \<Rightarrow> nat \<Rightarrow> pystr) \<Rightarrow> (nat \<Rightarrow> pystr \<Rightarrow> urlopen_outcome)
    \<Rightarrow> pystr list \<Rightarrow> py_error + retest_report" where
  "scrape_original_urls format_rate net urls =
     (case retest_loop net 0 urls [] [] [] of
        Inl e \<Rightarrow> Inl e
      | Inr (results, succ, fl) \<Rightarrow>
          if length results = 0 then Inl ZeroDivisionError
          else
            Inr \<lparr>all_results = results, successful = succ, failed = fl,
                 summary =
                   \<lparr>summary_total = length results,
                    summary_successful = length succ,
                    summary_failed = length fl,
                    success_rate = format_rate (length succ) (length results)\<rparr>\<rparr>)"

subsection \<open>\<open>generate_recommendations\<close>\<close>

definition msg_no_working_endpoints :: pystr where
  "msg_no_working_endpoints =
     0x274C # ascii '' No working endpoints found - site may be down or completely restructured''"

definition msg_different_domain :: pystr where
  "msg_different_domain =
     0x1F310 # ascii '' Consider checking if the site has moved to a different domain''"

definition msg_contact_admin :: pystr where
  "msg_contact_admin =
     0x1F4E7 # ascii '' Contact the site administrator for current URL structure''"

definition msg_found :: "nat \<Rightarrow> pystr" where
  "msg_found n = 0x2705 # ascii '' Found '' @ str_nat n @ ascii '' working endpoints''"

definition msg_use_working :: pystr where
  "msg_use_working =
     0x1F527 # ascii '' Use the working endpoints instead of the pagination URLs''"

definition msg_all_failed :: pystr where
  "msg_all_failed = 0x274C # ascii '' All original pagination URLs failed''"

definition msg_structure_changed :: pystr where
  "msg_structure_changed = 0x1F50D # ascii '' The pagination structure has likely changed''"

definition msg_try_working :: pystr where
  "msg_try_working =
     0x1F4CB # ascii '' Try using the working endpoints found during exploration''"

definition msg_404 :: pystr where
  "msg_404 = 0x1F527 # ascii '' 404 errors confirm URL structure has changed''"

definition msg_403 :: pystr where
  "msg_403 = 0x1F6AB # ascii '' 403 errors suggest access restrictions''"

definition generate_recommendations :: "exploration_report \<Rightarrow> retest_report \<Rightarrow> pystr list" where
  "generate_recommendations exploration_results scraping_results =
     (if explore_successful (explore_summary exploration_results) = 0
      then [msg_no_working_endpoints, msg_different_domain, msg_contact_admin]
      else [msg_found (explore_successful (explore_summary exploration_results)),
            msg_use_working])
     @ (if summary_successful (summary scraping_results) = 0
        then [msg_all_failed, msg_structure_changed, msg_try_working]
        else [])
     @ (if summary_failed (summary scraping_results) > 0
        then (let error_analysis = analyze_errors (failed scraping_results) in
              (if dict_get (status_codes error_analysis) (KInt 404) 0 > 0 then [msg_404] else [])
              @ (if dict_get (status_codes error_analysis) (KInt 403) 0 > 0 then [msg_403] else []))
        else [])"

subsection \<open>The end of \<open>main\<close>: saving the report\<close>

text \<open>
  What opening \<open>scraping_output/detailed_analysis.json\<close> and \<open>json.dump\<close> do: the
  file is written, or an exception \<open>e\<close> is raised, with \<open>str(e)\<close> the message.
\<close>

datatype write_outcome = Written | WriteRaises pystr

definition main_conclusion :: "pystr list" where
  "main_conclusion =
     [10 # replicate 60 61,
      0x1F3AF # ascii '' CONCLUSION: The pagination URLs are not working because the site'',
      ascii ''   structure has changed. Use the working endpoints found above'',
      ascii ''   or contact the site administrator for current URL structure.'',
      replicate 60 61]"

text \<open>
  What \<open>os.makedirs(output_dir, exist_ok=True)\<close> does: the directory is there
  afterwards, or an exception \<open>e\<close> is raised, with \<open>str(e)\<close> the message.
\<close>

datatype makedirs_outcome = DirReady | MakedirsRaises pystr

text \<open>
  \<open>main\<close> from \<open>os.makedirs\<close> to its last line. The call of \<open>os.makedirs\<close> stands
  before the \<open>try\<close>; only the write is inside it. The console is the list of the texts
  printed so far; the result is the console when \<open>main\<close> returns, or the exception
  that ends the process. \<open>output_file\<close> is
  \<open>os.path.join('scraping_output', 'detailed_analysis.json')\<close>, written with the
  separator \<open>/\<close>.
\<close>

definition main_save_results :: "makedirs_outcome \<Rightarrow> write_outcome \<Rightarrow> pystr list
    \<Rightarrow> py_error + pystr list" where
  "main_save_results mk w console =
     (case mk of
        MakedirsRaises e \<Rightarrow> Inl (Propagated e)
      | DirReady \<Rightarrow>
          (case w of
             Written \<Rightarrow>
               Inr (console
                    @ [10 # 0x1F4BE # ascii '' Detailed results saved to: scraping_output/detailed_analysis.json'']
                    @ main_conclusion)
           | WriteRaises e \<Rightarrow>
               Inr (console
                    @ [[10, 0x26A0, 0xFE0F] @ ascii ''  Warning: Could not save results to file: '' @ e,
                       ascii ''   Results are still displayed above.'']
                    @ main_conclusion)))"

section \<open>fixed\_scraper.py\<close>

text \<open>
  What \<open>self.session.get(url, timeout=...)\<close> does: a response of any status, with its
  \<open>status_code\<close>, \<open>len(response.content)\<close> and \<open>response.text\<close>; a
  \<open>requests.exceptions.RequestException\<close> (connection errors and timeouts are among
  them); or an exception of another class. \<open>urljoin\<close> and the \<open>netloc\<close> of
  \<open>urlparse\<close> are functions of the standard library and are parameters here.
\<close>

datatype get_outcome =
    GetResponse int nat pystr
  | RequestException pystr
  | OtherError pystr

subsection \<open>\<open>test_url_variations\<close>\<close>

fun variations_loop :: "(nat \<Rightarrow> pystr \<Rightarrow> get_outcome) \<Rightarrow> nat \<Rightarrow> pystr list \<Rightarrow> pystr
    \<Rightarrow> (pystr \<times> probe_result) list \<Rightarrow> (pystr \<times> probe_result) list" where
  "variations_loop get n [] base_domain results = results"
| "variations_loop get n (protocol # ps) base_domain results =
     (let target = protocol @ ascii ''://'' @ base_domain in
      variations_loop get (Suc n) ps base_domain
        (dict_set results target
           (case get n target of
              GetResponse code len text \<Rightarrow>
                empty_result\<lparr>status_code := Some code, content_length := Some len,
                  content_preview :=
                    Some (if text \<noteq> [] then take 200 text else ascii ''Empty response'')\<rparr>
            | RequestException msg \<Rightarrow> empty_result\<lparr>error := Some msg\<rparr>
            | OtherError msg \<Rightarrow> empty_result\<lparr>error := Some msg\<rparr>)))"

definition test_url_variations :: "(nat \<Rightarrow> pystr \<Rightarrow> get_outcome) \<Rightarrow> (pystr \<Rightarrow> pystr) \<Rightarrow> pystr
    \<Rightarrow> (pystr \<times> probe_result) list" where
  "test_url_variations get netloc base_url =
     variations_loop get 0 [ascii ''https'', ascii ''http''] (netloc base_url) []"

subsection \<open>\<open>find_working_endpoints\<close>\<close>

definition endpoints_to_test :: "pystr list" where
  "endpoints_to_test =
     map ascii
       [''/'', ''/index.html'', ''/index.php'', ''/home'', ''/main'', ''/products'', ''/items'',
        ''/guide'', ''/buyers-guide'', ''/d2p'', ''/api'', ''/api/products'', ''/api/items'',
        ''/search'', ''/category'', ''/categories'', ''/filter'', ''/list'', ''/all'',
        ''/page/1'', ''/page1'', ''/p/1'', ''/1'']"

fun endpoints_loop :: "(nat \<Rightarrow> pystr \<Rightarrow> get_outcome) \<Rightarrow> (pystr \<Rightarrow> pystr \<Rightarrow> pystr) \<Rightarrow> nat
    \<Rightarrow> pystr \<Rightarrow> pystr list \<Rightarrow> probe_result list \<Rightarrow> probe_result list" where
  "endpoints_loop get urljoin n base_url [] working = working"
| "endpoints_loop get urljoin n base_url (endpoint # es) working =
     (let target = urljoin base_url endpoint in
      endpoints_loop get urljoin (Suc n) base_url es
        (case get n target of
           GetResponse code len text \<Rightarrow>
             if code = 200
             then working @
               [empty_result\<lparr>url := Some target, status_code := Some code,
                  content_length := Some len,
                  content_preview :=
                    Some (if text \<noteq> [] then take 300 text else ascii ''Empty response'')\<rparr>]
             else working
         | RequestException msg \<Rightarrow> working
         | OtherError msg \<Rightarrow> working))"

definition find_working_endpoints :: "(nat \<Rightarrow> pystr \<Rightarrow> get_outcome) \<Rightarrow> (pystr \<Rightarrow> pystr \<Rightarrow> pystr)
    \<Rightarrow> pystr \<Rightarrow> probe_result list" where
  "find_working_endpoints get urljoin base_domain =
     endpoints_loop get urljoin 0 (ascii ''https://'' @ base_domain) endpoints_to_test []"

subsection \<open>\<open>_analyze_errors\<close> and \<open>_generate_recommendations\<close>\<close>

definition fixed_analyze_errors :: "probe_result list \<Rightarrow> error_analysis" where
  "fixed_analyze_errors failed_scrapes =
     (case tally failed_scrapes [] [] of
        (error_counts, codes) \<Rightarrow>
          \<lparr>error_types = error_counts, status_codes = codes,
           total_failures = length failed_scrapes\<rparr>)"

record scrape_results =
  successful_scrapes :: "probe_result list"
  failed_scrapes :: "probe_result list"
  error_summary :: error_analysis
  recommendations :: "pystr list"

definition msg_no_successful_scrapes :: pystr where
  "msg_no_successful_scrapes =
     0x274C # ascii '' No successful scrapes - the site may be down or URLs are incorrect''"

definition msg_investigate :: pystr where
  "msg_investigate = 0x1F50D # ascii '' Try investigating the site structure manually''"

definition msg_check_moved :: pystr where
  "msg_check_moved = 0x1F310 # ascii '' Check if the site has moved to a different domain''"

definition msg_404_suggest :: pystr where
  "msg_404_suggest = 0x1F527 # ascii '' 404 errors suggest URL structure has changed''"

definition msg_sitemap :: pystr where
  "msg_sitemap = 0x1F4CB # ascii '' Consider using a sitemap or site exploration tool''"

definition msg_auth :: pystr where
  "msg_auth = 0x1F511 # ascii '' Check if authentication is required''"

definition fixed_generate_recommendations :: "scrape_results \<Rightarrow> pystr list" where
  "fixed_generate_recommendations results =
     (if successful_scrapes results = []
      then [msg_no_successful_scrapes, msg_investigate, msg_check_moved]
      else [])
     @ (if dict_get (status_codes (error_summary results)) (KInt 404) 0 > 0
        then [msg_404_suggest, msg_sitemap]
        else [])
     @ (if dict_get (status_codes (error_summary results)) (KInt 403) 0 > 0
        then [msg_403, msg_auth]
        else [])"

subsection \<open>\<open>scrape_with_error_handling\<close>\<close>

text \<open>
  The \<open>for\<close> loop, with the two lists of \<open>results\<close> as accumulators. Only a
  \<open>RequestException\<close> is caught.
\<close>

fun scrape_loop :: "(nat \<Rightarrow> pystr \<Rightarrow> get_outcome) \<Rightarrow> nat \<Rightarrow> pystr list
    \<Rightarrow> probe_result list \<Rightarrow> probe_result list
    \<Rightarrow> py_error + (probe_result list \<times> probe_result list)" where
  "scrape_loop get n [] succ fl = Inr (succ, fl)"
| "scrape_loop get n (u # us) succ fl =
     (case get n (https_url u) of
        GetResponse code len text \<Rightarrow>
          if code = 200
          then scrape_loop get (Suc n) us
                 (succ @
                   [empty_result\<lparr>url := Some (https_url u), status_code := Some code,
                      content_length := Some len,
                      content_preview :=
                        Some (if text \<noteq> [] then take 500 text else ascii ''Empty response'')\<rparr>])
                 fl
          else scrape_loop get (Suc n) us succ
                 (fl @
                   [empty_result\<lparr>url := Some (https_url u), status_code := Some code,
                      error := Some (ascii ''HTTP '' @ str_int code)\<rparr>])
      | RequestException msg \<Rightarrow>
          scrape_loop get (Suc n) us succ (fl @ [empty_result\<lparr>url := Some u, error := Some msg\<rparr>])
      | OtherError msg \<Rightarrow> Inl (Propagated msg))"

definition scrape_with_error_handling :: "(nat \<Rightarrow> pystr \<Rightarrow> get_outcome) \<Rightarrow> pystr list
    \<Rightarrow> py_error + scrape_results" where
  "scrape_with_error_handling get urls =
     (case scrape_loop get 0 urls [] [] of
        Inl e \<Rightarrow> Inl e
      | Inr (succ, fl) \<Rightarrow>
          (let results = \<lparr>successful_scrapes = succ, failed_scrapes = fl,
                          error_summary = fixed_analyze_errors fl, recommendations = []\<rparr>
           in Inr (results\<lparr>recommendations := fixed_generate_recommendations results\<rparr>)))"

subsection \<open>\<open>explore_site_structure\<close>\<close>

record site_summary =
  total_endpoints_tested :: nat
  working_endpoints_found :: nat

record site_analysis =
  base_url_tests :: "(pystr \<times> probe_result) list"
  site_working_endpoints :: "probe_result list"
  exploration_summary :: site_summary

text \<open>
  The two requests of \<open>test_url_variations\<close> come first, so \<open>find_working_endpoints\<close>
  makes the requests 2, 3, ... of the run.
\<close>

definition explore_site_structure :: "(nat \<Rightarrow> pystr \<Rightarrow> get_outcome) \<Rightarrow> (pystr \<Rightarrow> pystr \<Rightarrow> pystr)
    \<Rightarrow> (pystr \<Rightarrow> pystr) \<Rightarrow> pystr \<Rightarrow> site_analysis" where
  "explore_site_structure get urljoin netloc base_domain =
     (let url_tests = test_url_variations get netloc (ascii ''https://'' @ base_domain);
          working = find_working_endpoints (\<lambda>n. get (n + 2)) urljoin base_domain
      in \<lparr>base_url_tests = url_tests, site_working_endpoints = working,
           exploration_summary =
             \<lparr>total_endpoints_tested = length working,
              working_endpoints_found =
                length (filter (\<lambda>ep. status_code ep = Some 200) working)\<rparr>\<rparr>)"

subsection \<open>The end of \<open>main\<close>: saving the results\<close>

text \<open>
  \<open>main\<close> from \<open>with open('/workspace/scraping_results.json', 'w')\<close> to its last
  line; there is no \<open>try\<close> around the write.
\<close>

definition fixed_main_save_results :: "write_outcome \<Rightarrow> pystr list \<Rightarrow> py_error + pystr list" where
  "fixed_main_save_results w console =
     (case w of
        Written \<Rightarrow>
          Inr (console
               @ [10 # 0x1F4BE # ascii '' Results saved to /workspace/scraping_results.json''])
      | WriteRaises e \<Rightarrow> Inl (Propagated e))"

section \<open>Lemmas\<close>

subsection \<open>String replacement\<close>

lemma contains_str_iff: "contains_str old s \<longleftrightarrow> (\<exists>a b. s = a @ old @ b)"
proof (induction s)
  case Nil
  then show ?case by simp
next
  case (Cons c s)
  show ?case
  proof
    assume "contains_str old (c # s)"
    then consider "take (length old) (c # s) = old" | "contains_str old s" by auto
    then show "\<exists>a b. c # s = a @ old @ b"
    proof cases
      case 1
      then have "c # s = [] @ old @ drop (length old) (c # s)"
        by (metis append_Nil append_take_drop_id)
      then show ?thesis by blast
    next
      case 2
      with Cons.IH obtain a b where "s = a @ old @ b" by blast
      then have "c # s = (c # a) @ old @ b" by simp
      then show ?thesis by blast
    qed
  next
    assume "\<exists>a b. c # s = a @ old @ b"
    then obtain a b where ab: "c # s = a @ old @ b" by blast
    show "contains_str old (c # s)"
    proof (cases a)
      case Nil
      with ab have "take (length old) (c # s) = old" by simp
      then show ?thesis by simp
    next
      case (Cons x a')
      with ab have "s = a' @ old @ b" by simp
      with Cons.IH have "contains_str old s" by blast
      then show ?thesis by simp
    qed
  qed
qed

lemma str_replace_Nil: "old \<noteq> [] \<Longrightarrow> str_replace old new [] = []"
  by (cases old) simp_all

lemma str_replace_Cons:
  "old \<noteq> [] \<Longrightarrow> str_replace old new (c # s) =
     (if take (length old) (c # s) = old
      then new @ str_replace old new (drop (length old) (c # s))
      else c # str_replace old new s)"
  by (cases old) simp_all

lemma str_replace_unchanged:
  "old \<noteq> [] \<Longrightarrow> \<not> contains_str old s \<Longrightarrow> str_replace old new s = s"
  by (induction s) (simp_all add: str_replace_Nil str_replace_Cons)

lemma str_replace_no_new_prefix:
  assumes "old \<noteq> []" "new \<noteq> []" "hd new = hd old" "hd old \<notin> set p"
    and "take (length p) (str_replace old new s) = p"
  shows "take (length p) s = p"
  using assms(4,5)
proof (induction p arbitrary: s)
  case Nil
  then show ?case by simp
next
  case (Cons a p)
  show ?case
  proof (cases s)
    case Nil
    with Cons.prems assms(1) show ?thesis by (simp add: str_replace_Nil)
  next
    case (Cons c s')
    show ?thesis
    proof (cases "take (length old) (c # s') = old")
      case True
      obtain x new' where new: "new = x # new'" using assms(2) by (cases new) auto
      with True Cons.prems(2) \<open>s = c # s'\<close> assms(1) have "a = x"
        by (simp add: str_replace_Cons)
      with new assms(3) Cons.prems(1) show ?thesis by simp
    next
      case False
      with Cons.prems(2) \<open>s = c # s'\<close> assms(1)
      have "c = a" "take (length p) (str_replace old new s') = p"
        by (simp_all add: str_replace_Cons)
      with Cons.IH [of s'] Cons.prems(1) \<open>s = c # s'\<close> show ?thesis by simp
    qed
  qed
qed

lemma str_replace_idem:
  assumes old: "old = x # old'" "x \<notin> set old'" and new: "new \<noteq> []" "hd new = x"
    and inert: "\<And>t. str_replace old new (new @ t) = new @ str_replace old new t"
  shows "str_replace old new (str_replace old new s) = str_replace old new s"
proof (induction s rule: length_induct)
  case (1 s)
  have ne: "old \<noteq> []" using old by simp
  show ?case
  proof (cases s)
    case Nil
    then show ?thesis by (simp add: str_replace_Nil ne)
  next
    case (Cons c s')
    show ?thesis
    proof (cases "take (length old) (c # s') = old")
      case True
      have "length (drop (length old) (c # s')) < length s" using Cons ne by simp
      with 1 have "str_replace old new (str_replace old new (drop (length old) (c # s')))
          = str_replace old new (drop (length old) (c # s'))" by blast
      with True Cons show ?thesis by (simp add: str_replace_Cons [OF ne] inert)
    next
      case False
      have step: "str_replace old new s = c # str_replace old new s'"
        using False Cons by (simp add: str_replace_Cons [OF ne])
      have "take (length old) (c # str_replace old new s') \<noteq> old"
      proof
        assume "take (length old) (c # str_replace old new s') = old"
        then have c: "c = x" and t: "take (length old') (str_replace old new s') = old'"
          using old by simp_all
        have "hd old \<notin> set old'" using old by simp
        from str_replace_no_new_prefix [OF ne new(1) _ this t] new(2) old(1)
        have "take (length old') s' = old'" by simp
        with c old(1) have "take (length old) (c # s') = old" by simp
        with False show False by contradiction
      qed
      moreover have "str_replace old new (str_replace old new s') = str_replace old new s'"
        using 1 Cons by simp
      ultimately show ?thesis using step by (simp add: str_replace_Cons [OF ne])
    qed
  qed
qed

lemma https_url_http: "https_url (ascii ''http://'' @ r) = ascii ''https://'' @ https_url r"
  by (simp add: https_url_def ascii_def)

lemma https_url_https: "https_url (ascii ''https://'' @ r) = ascii ''https://'' @ https_url r"
  by (simp add: https_url_def ascii_def)

lemma https_url_unchanged: "\<not> contains_str (ascii ''http://'') u \<Longrightarrow> https_url u = u"
  unfolding https_url_def by (rule str_replace_unchanged) (simp_all add: ascii_def)

lemma https_url_idem: "https_url (https_url u) = https_url u"
  unfolding https_url_def
proof (rule str_replace_idem)
  show "ascii ''http://'' = 104 # ascii ''ttp://''" by (simp add: ascii_def)
  show "104 \<notin> set (ascii ''ttp://'')" by (simp add: ascii_def)
  show "ascii ''https://'' \<noteq> []" by (simp add: ascii_def)
  show "hd (ascii ''https://'') = 104" by (simp add: ascii_def)
  show "\<And>t. str_replace (ascii ''http://'') (ascii ''https://'') (ascii ''https://'' @ t)
        = ascii ''https://'' @ str_replace (ascii ''http://'') (ascii ''https://'') t"
    using https_url_https by (simp add: https_url_def)
qed


subsection \<open>The loops of simple\_scraper.py\<close>

lemma test_url_url: "test_url f u = Inr r \<Longrightarrow> url r = Some u"
  by (auto simp: test_url_def empty_result_def split: urlopen_outcome.splits option.splits read_outcome.splits)

lemma explore_loop_inv:
  "explore_loop net n us results working = Inr (results', working') \<Longrightarrow>
     \<exists>new. results' = results @ new \<and> working' = working @ filter is_working new \<and>
           map url new = map Some us"
proof (induction us arbitrary: n results working)
  case Nil
  then show ?case by simp
next
  case (Cons u us)
  from Cons.prems obtain r where r: "test_url (net n) u = Inr r"
    and rest: "explore_loop net (Suc n) us (results @ [r])
                 (if is_working r then working @ [r] else working) = Inr (results', working')"
    by (auto split: sum.splits)
  from Cons.IH [OF rest] obtain new where new: "results' = (results @ [r]) @ new"
    "working' = (if is_working r then working @ [r] else working) @ filter is_working new"
    "map url new = map Some us"
    by blast
  have "results' = results @ (r # new)" using new(1) by simp
  moreover have "working' = working @ filter is_working (r # new)" using new(2) by simp
  moreover have "map url (r # new) = map Some (u # us)" using new(3) test_url_url [OF r] by simp
  ultimately show ?case by blast
qed

lemma explore_urls_report:
  assumes "explore_urls net urls = Inr rep"
  shows "working_endpoints rep = filter is_working (all_tests rep)"
    and "map url (all_tests rep) = map Some urls"
    and "total_tested (explore_summary rep) = length (all_tests rep)"
    and "explore_successful (explore_summary rep) = length (working_endpoints rep)"
proof -
  from assms obtain results working where
    loop: "explore_loop net 0 urls [] [] = Inr (results, working)"
    and rep: "rep = \<lparr>all_tests = results, working_endpoints = working,
               explore_summary =
                 \<lparr>total_tested = length results,
                  explore_successful = length working,
                  explore_failed = int (length results) - int (length working)\<rparr>\<rparr>"
    by (auto simp: explore_urls_def split: sum.splits)
  from explore_loop_inv [OF loop] have "working = filter is_working results"
    and "map url results = map Some urls" by auto
  then show "working_endpoints rep = filter is_working (all_tests rep)"
    and "map url (all_tests rep) = map Some urls"
    and "total_tested (explore_summary rep) = length (all_tests rep)"
    and "explore_successful (explore_summary rep) = length (working_endpoints rep)"
    using rep by simp_all
qed

lemma retest_loop_inv:
  "retest_loop net n us results succ fl = Inr (results', succ', fl') \<Longrightarrow>
     \<exists>new. results' = results @ new \<and> succ' = succ @ filter is_working new \<and>
           fl' = fl @ filter (\<lambda>r. \<not> is_working r) new \<and>
           map original_url new = map Some us \<and>
           map url new = map (\<lambda>u. Some (https_url u)) us"
proof (induction us arbitrary: n results succ fl)
  case Nil
  then show ?case by simp
next
  case (Cons u us)
  from Cons.prems obtain r0 where r0: "test_url (net n) (https_url u) = Inr r0"
    by (auto split: sum.splits)
  define r where "r = r0\<lparr>original_url := Some u\<rparr>"
  have ur: "url r = Some (https_url u)" "original_url r = Some u"
    using test_url_url [OF r0] by (simp_all add: r_def)
  show ?case
  proof (cases "is_working r")
    case True
    with Cons.prems r0 have
      "retest_loop net (Suc n) us (results @ [r]) (succ @ [r]) fl = Inr (results', succ', fl')"
      by (simp add: r_def Let_def)
    from Cons.IH [OF this] obtain new where new: "results' = (results @ [r]) @ new"
      "succ' = (succ @ [r]) @ filter is_working new"
      "fl' = fl @ filter (\<lambda>r. \<not> is_working r) new"
      "map original_url new = map Some us" "map url new = map (\<lambda>u. Some (https_url u)) us"
      by blast
    have "results' = results @ (r # new)" using new(1) by simp
    moreover have "succ' = succ @ filter is_working (r # new)" using new(2) True by simp
    moreover have "fl' = fl @ filter (\<lambda>r. \<not> is_working r) (r # new)" using new(3) True by simp
    moreover have "map original_url (r # new) = map Some (u # us)" using new(4) ur by simp
    moreover have "map url (r # new) = map (\<lambda>u. Some (https_url u)) (u # us)"
      using new(5) ur by simp
    ultimately show ?thesis by blast
  next
    case False
    with Cons.prems r0 have
      "retest_loop net (Suc n) us (results @ [r]) succ (fl @ [r]) = Inr (results', succ', fl')"
      by (simp add: r_def Let_def)
    from Cons.IH [OF this] obtain new where new: "results' = (results @ [r]) @ new"
      "succ' = succ @ filter is_working new"
      "fl' = (fl @ [r]) @ filter (\<lambda>r. \<not> is_working r) new"
      "map original_url new = map Some us" "map url new = map (\<lambda>u. Some (https_url u)) us"
      by blast
    have "results' = results @ (r # new)" using new(1) by simp
    moreover have "succ' = succ @ filter is_working (r # new)" using new(2) False by simp
    moreover have "fl' = fl @ filter (\<lambda>r. \<not> is_working r) (r # new)" using new(3) False by simp
    moreover have "map original_url (r # new) = map Some (u # us)" using new(4) ur by simp
    moreover have "map url (r # new) = map (\<lambda>u. Some (https_url u)) (u # us)"
      using new(5) ur by simp
    ultimately show ?thesis by blast
  qed
qed

lemma scrape_original_urls_report:
  assumes "scrape_original_urls fr net urls = Inr rep"
  shows "map original_url (all_results rep) = map Some urls"
    and "map url (all_results rep) = map (\<lambda>u. Some (https_url u)) urls"
    and "successful rep = filter is_working (all_results rep)"
    and "failed rep = filter (\<lambda>r. \<not> is_working r) (all_results rep)"
    and "urls \<noteq> []"
proof -
  from assms obtain results succ fl where
    loop: "retest_loop net 0 urls [] [] [] = Inr (results, succ, fl)"
    and ne: "length results \<noteq> 0"
    and rep: "all_results rep = results" "successful rep = succ" "failed rep = fl"
    by (auto simp: scrape_original_urls_def split: sum.splits if_splits)
  from retest_loop_inv [OF loop] have *: "succ = filter is_working results"
    "fl = filter (\<lambda>r. \<not> is_working r) results"
    "map original_url results = map Some urls"
    "map url results = map (\<lambda>u. Some (https_url u)) urls" by auto
  from *(3) have "length results = length urls" by (metis length_map)
  with ne have "urls \<noteq> []" by auto
  with * rep show "map original_url (all_results rep) = map Some urls"
    and "map url (all_results rep) = map (\<lambda>u. Some (https_url u)) urls"
    and "successful rep = filter is_working (all_results rep)"
    and "failed rep = filter (\<lambda>r. \<not> is_working r) (all_results rep)"
    and "urls \<noteq> []" by simp_all
qed

subsection \<open>Tallies\<close>

lemma sum_dict_set:
  "sum_list (map snd (dict_set d k (Suc (dict_get d k 0)))) = Suc (sum_list (map snd d))"
  by (induction d) auto

lemma dict_get_set: "dict_get (dict_set d k v) k' dflt = (if k' = k then v else dict_get d k' dflt)"
  by (induction d) auto

lemma tally_sums:
  "tally rs ec sc = (ec', sc') \<Longrightarrow>
     sum_list (map snd ec') = sum_list (map snd ec) + length rs \<and>
     sum_list (map snd sc') = sum_list (map snd sc) + length rs"
proof (induction rs arbitrary: ec sc)
  case Nil
  then show ?case by simp
next
  case (Cons r rs)
  from Cons.prems Cons.IH show ?case
    by (simp add: sum_dict_set)
qed

lemma tally_counts:
  "tally rs ec sc = (ec', sc') \<Longrightarrow>
     dict_get ec' k 0 = dict_get ec k 0 + length (filter (\<lambda>r. error_key r = k) rs) \<and>
     dict_get sc' k 0 = dict_get sc k 0 + length (filter (\<lambda>r. status_key r = k) rs)"
proof (induction rs arbitrary: ec sc)
  case Nil
  then show ?case by simp
next
  case (Cons r rs)
  from Cons.prems Cons.IH show ?case
    by (auto simp add: dict_get_set)
qed

lemma error_key_Unknown:
  "error_key r = KStr (ascii ''Unknown'') \<longleftrightarrow> error r = None \<or> error r = Some (ascii ''Unknown'')"
  by (simp add: error_key_def split: option.splits)

lemma status_key_Unknown: "status_key r = KStr (ascii ''Unknown'') \<longleftrightarrow> status_code r = None"
  by (simp add: status_key_def split: option.splits)

lemma status_key_KInt: "status_key r = KInt c \<longleftrightarrow> status_code r = Some c"
  by (simp add: status_key_def split: option.splits)


subsection \<open>Recommendation texts\<close>

lemma msg_found_neq:
  "msg_found n \<noteq> msg_no_working_endpoints" "msg_found n \<noteq> msg_different_domain"
  "msg_found n \<noteq> msg_contact_admin" "msg_found n \<noteq> msg_all_failed"
  "msg_found n \<noteq> msg_structure_changed" "msg_found n \<noteq> msg_try_working"
  "msg_found n \<noteq> msg_404" "msg_found n \<noteq> msg_403"
  by (simp_all add: msg_found_def msg_no_working_endpoints_def msg_different_domain_def
      msg_contact_admin_def msg_all_failed_def msg_structure_changed_def msg_try_working_def
      msg_404_def msg_403_def)

lemma msg_no_working_endpoints_neq:
  "msg_no_working_endpoints \<noteq> msg_found n" "msg_no_working_endpoints \<noteq> msg_use_working"
  "msg_no_working_endpoints \<noteq> msg_all_failed" "msg_no_working_endpoints \<noteq> msg_structure_changed"
  "msg_no_working_endpoints \<noteq> msg_try_working" "msg_no_working_endpoints \<noteq> msg_404"
  "msg_no_working_endpoints \<noteq> msg_403"
  by (simp_all add: msg_found_def msg_no_working_endpoints_def msg_use_working_def
      msg_all_failed_def msg_structure_changed_def msg_try_working_def
      msg_404_def msg_403_def ascii_def)

subsection \<open>When a run is not aborted\<close>

lemma explore_loop_total:
  "(\<forall>n u code reason msg. net n u \<noteq> HTTPError code reason (Some (ReadRaises msg))) \<Longrightarrow>
     \<exists>res. explore_loop net n us results working = Inr res"
proof (induction us arbitrary: n results working)
  case Nil
  then show ?case by simp
next
  case (Cons u us)
  have "\<exists>r. test_url (net n) u = Inr r"
  proof (cases "net n u")
    case (Response code content hdrs)
    then show ?thesis by (simp add: test_url_def)
  next
    case (HTTPError code reason body)
    show ?thesis
    proof (cases body)
      case None
      with HTTPError show ?thesis by (simp add: test_url_def)
    next
      case (Some b)
      with HTTPError Cons.prems show ?thesis by (cases b) (auto simp: test_url_def)
    qed
  next
    case (OtherException msg)
    then show ?thesis by (simp add: test_url_def)
  qed
  then obtain r where "test_url (net n) u = Inr r" by blast
  with Cons.IH [OF Cons.prems] show ?case by simp
qed

lemma main_save_results_returns:
  "\<exists>out. main_save_results DirReady w console = Inr (console @ out)"
  by (cases w) (simp_all add: main_save_results_def)

lemma main_save_results_warns:
  "main_save_results DirReady (WriteRaises e) console =
     Inr (console
          @ [[10, 0x26A0, 0xFE0F] @ ascii ''  Warning: Could not save results to file: '' @ e,
             ascii ''   Results are still displayed above.'']
          @ main_conclusion)"
  by (simp add: main_save_results_def)

lemma main_save_results_makedirs_propagates:
  "main_save_results (MakedirsRaises e) w console = Inl (Propagated e)"
  by (simp add: main_save_results_def)

subsection \<open>The loops of fixed\_scraper.py\<close>

lemma scrape_loop_total:
  "(\<forall>n u msg. get n u \<noteq> OtherError msg) \<Longrightarrow> \<exists>res. scrape_loop get n us succ fl = Inr res"
proof (induction us arbitrary: n succ fl)
  case Nil
  then show ?case by simp
next
  case (Cons u us)
  show ?case
  proof (cases "get n (https_url u)")
    case (GetResponse code len page)
    with Cons.IH [OF Cons.prems] show ?thesis by simp
  next
    case (RequestException msg)
    with Cons.IH [OF Cons.prems] show ?thesis by simp
  next
    case (OtherError msg)
    with Cons.prems show ?thesis by blast
  qed
qed

lemma endpoints_loop_inv:
  "map url (endpoints_loop get uj n base es working) =
     map url working @
     map (\<lambda>(i, e). Some (uj base e))
       (filter (\<lambda>(i, e). \<exists>len text. get i (uj base e) = GetResponse 200 len text)
          (enumerate n es))"
proof (induction es arbitrary: n working)
  case Nil
  then show ?case by simp
next
  case (Cons e es)
  show ?case
    by (cases "get n (uj base e)") (simp_all add: Cons.IH Let_def empty_result_def)
qed


lemma endpoints_loop_none:
  "(\<forall>i u len text. get i u \<noteq> GetResponse 200 len text) \<Longrightarrow>
     endpoints_loop get uj n base es working = working"
proof (induction es arbitrary: n)
  case Nil
  then show ?case by simp
next
  case (Cons e es)
  then show ?case
    by (cases "get n (uj base e)") (auto simp: Let_def)
qed

subsection \<open>Further facts about the two explorers and the prober\<close>

lemma explore_urls_empty:
  "explore_urls net [] = Inr \<lparr>all_tests = [], working_endpoints = [],
     explore_summary = \<lparr>total_tested = 0, explore_successful = 0, explore_failed = 0\<rparr>\<rparr>"
  by (simp add: explore_urls_def)

lemma fixed_total_is_working_count:
  "total_endpoints_tested (exploration_summary (explore_site_structure get urljoin netloc d))
     = length (site_working_endpoints (explore_site_structure get urljoin netloc d))"
  by (simp add: explore_site_structure_def Let_def)

lemma test_url_other_exception:
  "f u = OtherException msg \<Longrightarrow>
     \<exists>r. test_url f u = Inr r \<and> success r = Some False \<and> status_code r = None
          \<and> error r = Some msg \<and> content_preview r = Some (ascii ''No content'')"
  by (simp add: test_url_def empty_result_def)

lemma test_url_http_error:
  "f u = HTTPError code reason body \<Longrightarrow> (\<forall>msg. body \<noteq> Some (ReadRaises msg)) \<Longrightarrow>
     \<exists>r. test_url f u = Inr r \<and> success r = Some False \<and> status_code r = Some code
          \<and> error r = Some (ascii ''HTTP '' @ str_int code @ ascii '': '' @ reason)"
  by (cases body; cases "the body") (simp_all add: test_url_def empty_result_def)

lemma explore_urls_total:
  "(\<forall>n u code reason msg. net n u \<noteq> HTTPError code reason (Some (ReadRaises msg))) \<Longrightarrow>
     \<exists>rep. explore_urls net urls = Inr rep"
proof -
  assume "\<forall>n u code reason msg. net n u \<noteq> HTTPError code reason (Some (ReadRaises msg))"
  from explore_loop_total [OF this, of 0 urls "[]" "[]"]
  obtain res where "explore_loop net 0 urls [] [] = Inr res" by blast
  then show ?thesis by (cases res) (simp add: explore_urls_def)
qed

lemma scrape_with_error_handling_total:
  "(\<forall>n u msg. get n u \<noteq> OtherError msg) \<Longrightarrow> \<exists>res. scrape_with_error_handling get urls = Inr res"
proof -
  assume "\<forall>n u msg. get n u \<noteq> OtherError msg"
  from scrape_loop_total [OF this, of 0 urls "[]" "[]"]
  obtain res where "scrape_loop get 0 urls [] [] = Inr res" by blast
  then show ?thesis by (cases res) (simp add: scrape_with_error_handling_def Let_def)
qed

lemma find_working_endpoints_selected:
  "map url (find_working_endpoints get urljoin base_domain) =
     map (\<lambda>(i, e). Some (urljoin (ascii ''https://'' @ base_domain) e))
       (filter (\<lambda>(i, e). \<exists>len page.
            get i (urljoin (ascii ''https://'' @ base_domain) e) = GetResponse 200 len page)
          (enumerate 0 endpoints_to_test))"
  by (simp add: find_working_endpoints_def endpoints_loop_inv)

subsection \<open>The texts of the recommendations\<close>

lemma generate_recommendations_rule_named:
  "(explore_successful (explore_summary er) = 0 \<longrightarrow>
      msg_no_working_endpoints \<in> set (generate_recommendations er sr)
      \<and> (\<forall>n. msg_found n \<notin> set (generate_recommendations er sr)))
   \<and> (explore_successful (explore_summary er) \<noteq> 0 \<longrightarrow>
      msg_found (explore_successful (explore_summary er)) \<in> set (generate_recommendations er sr)
      \<and> msg_use_working \<in> set (generate_recommendations er sr)
      \<and> msg_no_working_endpoints \<notin> set (generate_recommendations er sr))"
  by (simp add: generate_recommendations_def Let_def msg_found_neq msg_no_working_endpoints_neq)

text \<open>The same rule with the texts written out, as \<open>generate_recommendations\<close> appends them.\<close>

lemma generate_recommendations_texts:
  "(explore_successful (explore_summary er) = 0 \<longrightarrow>
      0x274C # ascii '' No working endpoints found - site may be down or completely restructured''
        \<in> set (generate_recommendations er sr)
      \<and> (\<forall>n. 0x2705 # ascii '' Found '' @ str_nat n @ ascii '' working endpoints''
             \<notin> set (generate_recommendations er sr)))
   \<and> (explore_successful (explore_summary er) \<noteq> 0 \<longrightarrow>
      0x2705 # ascii '' Found '' @ str_nat (explore_successful (explore_summary er))
          @ ascii '' working endpoints''
        \<in> set (generate_recommendations er sr)
      \<and> 0x1F527 # ascii '' Use the working endpoints instead of the pagination URLs''
        \<in> set (generate_recommendations er sr)
      \<and> 0x274C # ascii '' No working endpoints found - site may be down or completely restructured''
        \<notin> set (generate_recommendations er sr))"
  using generate_recommendations_rule_named [of er sr]
  unfolding msg_found_def msg_no_working_endpoints_def msg_use_working_def .

lemma str_nat_examples:
  "str_nat 2 = ascii ''2''" "str_nat 20 = ascii ''20''" "str_nat 105 = ascii ''105''"
  by (simp_all add: ascii_def)

text \<open>
  \<open>_generate_recommendations\<close> of fixed\_scraper.py appends none but these seven texts;
  "Found N working endpoints" and "Use the working endpoints ..." are not among them.
\<close>

lemma fixed_generate_recommendations_texts:
  "set (fixed_generate_recommendations results) \<subseteq>
     {0x274C # ascii '' No successful scrapes - the site may be down or URLs are incorrect'',
      0x1F50D # ascii '' Try investigating the site structure manually'',
      0x1F310 # ascii '' Check if the site has moved to a different domain'',
      0x1F527 # ascii '' 404 errors suggest URL structure has changed'',
      0x1F4CB # ascii '' Consider using a sitemap or site exploration tool'',
      0x1F6AB # ascii '' 403 errors suggest access restrictions'',
      0x1F511 # ascii '' Check if authentication is required''}"
  by (auto simp add: fixed_generate_recommendations_def msg_no_successful_scrapes_def
      msg_investigate_def msg_check_moved_def msg_404_suggest_def msg_sitemap_def msg_403_def
      msg_auth_def)

lemma fixed_generate_recommendations_never_found:
  "0x2705 # ascii '' Found '' @ str_nat n @ ascii '' working endpoints''
     \<notin> set (fixed_generate_recommendations results)"
  "0x1F527 # ascii '' Use the working endpoints instead of the pagination URLs''
     \<notin> set (fixed_generate_recommendations results)"
  by (simp_all add: fixed_generate_recommendations_def msg_no_successful_scrapes_def
      msg_investigate_def msg_check_moved_def msg_404_suggest_def msg_sitemap_def msg_403_def
      msg_auth_def ascii_def)

subsection \<open>Further facts about fixed\_scraper.py\<close>



lemma scrape_loop_no_original_url:
  "scrape_loop get n us succ fl = Inr (succ', fl') \<Longrightarrow>
     \<forall>r\<in>set succ \<union> set fl. original_url r = None \<Longrightarrow>
     \<forall>r\<in>set succ' \<union> set fl'. original_url r = None"
proof (induction us arbitrary: n succ fl)
  case Nil
  then show ?case by simp
next
  case (Cons u us)
  show ?case
  proof (cases "get n (https_url u)")
    case (GetResponse code len page)
    show ?thesis
    proof (cases "code = 200")
      case True
      with Cons.prems(1) GetResponse obtain r where
        "scrape_loop get (Suc n) us (succ @ [r]) fl = Inr (succ', fl')" "original_url r = None"
        by (simp add: empty_result_def)
      with Cons.IH [of "Suc n" "succ @ [r]" fl] Cons.prems(2) show ?thesis by auto
    next
      case False
      with Cons.prems(1) GetResponse obtain r where
        "scrape_loop get (Suc n) us succ (fl @ [r]) = Inr (succ', fl')" "original_url r = None"
        by (simp add: empty_result_def)
      with Cons.IH [of "Suc n" succ "fl @ [r]"] Cons.prems(2) show ?thesis by auto
    qed
  next
    case (RequestException msg)
    with Cons.prems(1) obtain r where
      "scrape_loop get (Suc n) us succ (fl @ [r]) = Inr (succ', fl')" "original_url r = None"
      by (simp add: empty_result_def)
    with Cons.IH [of "Suc n" succ "fl @ [r]"] Cons.prems(2) show ?thesis by auto
  next
    case (OtherError msg)
    with Cons.prems(1) show ?thesis by simp
  qed
qed

lemma scrape_with_error_handling_no_original_url:
  "scrape_with_error_handling get urls = Inr res \<Longrightarrow>
     \<forall>r\<in>set (successful_scrapes res) \<union> set (failed_scrapes res). original_url r = None"
proof -
  assume a: "scrape_with_error_handling get urls = Inr res"
  then obtain succ fl where l: "scrape_loop get 0 urls [] [] = Inr (succ, fl)"
    and r: "successful_scrapes res = succ" "failed_scrapes res = fl"
    by (auto simp: scrape_with_error_handling_def Let_def split: sum.splits)
  from scrape_loop_no_original_url [OF l] r show ?thesis by simp
qed

subsection \<open>The tag of simple\_scraper.py\<close>

lemma scrape_original_urls_tagged:
  "scrape_original_urls format_rate net urls = Inr rep \<Longrightarrow>
     map original_url (all_results rep) = map Some urls
     \<and> length (all_results rep) = length urls"
proof -
  assume a: "scrape_original_urls format_rate net urls = Inr rep"
  from scrape_original_urls_report(1) [OF a]
  have m: "map original_url (all_results rep) = map Some urls" .
  then have "length (all_results rep) = length urls" by (metis length_map)
  with m show ?thesis by simp
qed

section \<open>The claims\<close>

text \<open>
  C1. The summary of an exploration has to count every endpoint that was tested.
  \<open>explore_site\<close> of simple\_scraper.py does: \<open>total_tested\<close> is the length of
  \<open>all_tests\<close> and \<open>successful\<close> the length of \<open>working_endpoints\<close>, also on the
  empty list (lemmas \<open>explore_urls_report\<close> and \<open>explore_urls_empty\<close>).
  \<open>explore_site_structure\<close> of fixed\_scraper.py sets \<open>total_endpoints_tested\<close> to
  \<open>len(working_endpoints)\<close> (lemma \<open>fixed_total_is_working_count\<close>): when each of the
  23 candidates is answered with 404, 23 endpoints have been tested and the summary
  counts 0.
\<close>

theorem explore_site_structure_total_tested:
  "total_endpoints_tested (exploration_summary
        (explore_site_structure (\<lambda>n u. GetResponse 404 0 []) (\<lambda>b e. b @ e) (\<lambda>u. u)
           (ascii ''example.test''))) = 0
   \<and> length endpoints_to_test = 23"
  by (simp add: explore_site_structure_def find_working_endpoints_def endpoints_loop_none
      Let_def endpoints_to_test_def)

text \<open>
  C2. The success rate has to be defined when the list of URLs is empty. In
  \<open>scrape_original_urls\<close> it is not: \<open>len(successful)/len(results)\<close> is evaluated
  with \<open>len(results) = 0\<close> and the call ends with \<open>ZeroDivisionError\<close>, whatever the
  network does.
\<close>

theorem scrape_original_urls_empty_raises:
  "scrape_original_urls format_rate net [] = Inl ZeroDivisionError"
  by (simp add: scrape_original_urls_def)

text \<open>
  C3. Whatever the candidate list and whatever the network answers, when \<open>explore_site\<close>
  returns its report, \<open>working_endpoints\<close> is the sublist of \<open>all_tests\<close> of the
  results that have \<open>success\<close> true and \<open>status_code\<close> 200, in the order of the
  candidate list: \<open>all_tests\<close> holds one result for each candidate, in that order.
\<close>

theorem explore_working_endpoints_filter:
  "explore_urls net urls = Inr rep \<Longrightarrow>
     working_endpoints rep
       = filter (\<lambda>r. success r = Some True \<and> status_code r = Some 200) (all_tests rep)
     \<and> map url (all_tests rep) = map Some urls"
  using explore_urls_report(1,2) [of net urls rep] by (simp add: is_working_def [abs_def])

theorem explore_working_endpoints_filter_witness:
  "(case explore_urls
           (\<lambda>n u. if n = 1 then Response 200 (ascii ''ok'') []
                   else if n = 2 then Response 204 [] []
                   else HTTPError 404 (ascii ''Not Found'') None)
           [ascii ''https://example.test'', ascii ''https://example.test/'',
            ascii ''https://example.test/api''] of
      Inl e \<Rightarrow> False
    | Inr rep \<Rightarrow>
        working_endpoints rep
          = filter (\<lambda>r. success r = Some True \<and> status_code r = Some 200) (all_tests rep)
        \<and> map url (working_endpoints rep) = [Some (ascii ''https://example.test/'')]
        \<and> length (all_tests rep) = 3)"
proof -
  let ?net = "\<lambda>n u. if n = (1::nat) then Response 200 (ascii ''ok'') []
                   else if n = 2 then Response 204 [] []
                   else HTTPError 404 (ascii ''Not Found'') None"
  let ?urls = "[ascii ''https://example.test'', ascii ''https://example.test/'',
            ascii ''https://example.test/api'']"
  obtain rep where rep: "explore_urls ?net ?urls = Inr rep"
    by (simp add: explore_urls_def test_url_def is_working_def empty_result_def)
  have w: "map url (working_endpoints rep) = [Some (ascii ''https://example.test/'')]"
    and l: "length (all_tests rep) = 3"
    using rep by (auto simp add: explore_urls_def test_url_def is_working_def empty_result_def)
  from explore_working_endpoints_filter [OF rep] w l show ?thesis
    by (simp only: rep sum.case)
qed


text \<open>
  C5. For every list of failed results, \<open>total_failures\<close> is the length of the list, the
  counts of \<open>error_types\<close> add up to it, and so do the counts of \<open>status_codes\<close>. The
  results without an \<open>error\<close> are counted under the key \<open>'Unknown'\<close> (together with
  those whose error text is that very word), and the results without a \<open>status_code\<close>
  are the ones counted under \<open>'Unknown'\<close> among the status codes. \<open>_analyze_errors\<close>
  of fixed\_scraper.py computes the same analysis.
\<close>

theorem analyze_errors_counts_sum:
  "total_failures (analyze_errors fs) = length fs
   \<and> sum_list (map snd (error_types (analyze_errors fs))) = total_failures (analyze_errors fs)
   \<and> sum_list (map snd (status_codes (analyze_errors fs))) = total_failures (analyze_errors fs)
   \<and> dict_get (error_types (analyze_errors fs)) (KStr (ascii ''Unknown'')) 0
       = length (filter (\<lambda>r. error r = None \<or> error r = Some (ascii ''Unknown'')) fs)
   \<and> dict_get (status_codes (analyze_errors fs)) (KStr (ascii ''Unknown'')) 0
       = length (filter (\<lambda>r. status_code r = None) fs)
   \<and> fixed_analyze_errors fs = analyze_errors fs"
proof -
  obtain ec sc where t: "tally fs [] [] = (ec, sc)" by (cases "tally fs [] []")
  have a: "analyze_errors fs = \<lparr>error_types = ec, status_codes = sc, total_failures = length fs\<rparr>"
    by (simp add: analyze_errors_def t)
  have s: "sum_list (map snd ec) = length fs" "sum_list (map snd sc) = length fs"
    using tally_sums [OF t] by simp_all
  have c: "dict_get ec (KStr (ascii ''Unknown'')) 0
             = length (filter (\<lambda>r. error r = None \<or> error r = Some (ascii ''Unknown'')) fs)"
          "dict_get sc (KStr (ascii ''Unknown'')) 0 = length (filter (\<lambda>r. status_code r = None) fs)"
    using tally_counts [OF t, of "KStr (ascii ''Unknown'')"]
    by (simp_all add: error_key_Unknown status_key_Unknown)
  have "fixed_analyze_errors fs = analyze_errors fs"
    by (simp add: fixed_analyze_errors_def analyze_errors_def)
  with a s c show ?thesis by simp
qed

text \<open>
  C6. No failed probe may abort a run. \<open>test_url\<close> catches an \<open>HTTPError\<close> and every
  other \<open>Exception\<close> raised by the request (lemmas \<open>test_url_http_error\<close> and
  \<open>test_url_other_exception\<close>), but the handler of \<open>HTTPError\<close> reads the body of
  the error response with \<open>e.read()\<close>, outside any \<open>try\<close>: when that read fails, say
  with a timeout, the exception leaves \<open>test_url\<close> and ends \<open>explore_site\<close> at the
  first candidate.
\<close>

theorem test_url_read_failure_propagates:
  "test_url (\<lambda>u. HTTPError 404 (ascii ''Not Found'') (Some (ReadRaises (ascii ''timed out''))))
       (ascii ''https://example.test/'') = Inl (Propagated (ascii ''timed out''))
   \<and> explore_site
         (\<lambda>n u. HTTPError 404 (ascii ''Not Found'') (Some (ReadRaises (ascii ''timed out''))))
         (ascii ''example.test'') = Inl (Propagated (ascii ''timed out''))"
  by (simp add: test_url_def explore_site_def explore_urls_def test_urls_def)

text \<open>
  C7. Every result of the retest has to carry the URL of the input, as it was before
  \<open>http://\<close> was replaced. \<open>scrape_original_urls\<close> of simple\_scraper.py stores it
  under \<open>original_url\<close> (lemma \<open>scrape_original_urls_tagged\<close>).
  \<open>scrape_with_error_handling\<close> of fixed\_scraper.py stores no such key (lemma
  \<open>scrape_with_error_handling_no_original_url\<close>), and for a response its \<open>url\<close> is
  the rewritten one: for the first legacy URL, answered with 404, the failed entry
  holds the \<open>https://\<close> URL and the input URL is nowhere in it.
\<close>

theorem fixed_scrape_entries_carry_rewritten_url:
  "(case scrape_with_error_handling (\<lambda>n u. GetResponse 404 0 [])
          [ascii ''http://www.d2pbuyersguide.com/filter/all/page/1''] of
      Inl e \<Rightarrow> False
    | Inr res \<Rightarrow>
        successful_scrapes res = []
        \<and> map url (failed_scrapes res)
            = [Some (ascii ''https://www.d2pbuyersguide.com/filter/all/page/1'')]
        \<and> map original_url (failed_scrapes res) = [None])"
  by (simp add: scrape_with_error_handling_def Let_def empty_result_def https_url_def ascii_def)

text \<open>
  C8. A URL that already uses \<open>https://\<close> has to be probed unchanged. An
  \<open>http://\<close> at the start does become \<open>https://\<close>, a URL without \<open>http://\<close> is
  unchanged and rewriting twice is rewriting once (lemmas \<open>https_url_http\<close>,
  \<open>https_url_unchanged\<close>, \<open>https_url_idem\<close>). But
  \<open>url.replace('http://', 'https://')\<close> replaces every occurrence, not the scheme
  alone: for \<open>https://a/?u=http://b\<close> both scripts ask the network for
  \<open>https://a/?u=https://b\<close>, a different resource.
\<close>

theorem https_url_rewrites_embedded:
  "https_url (ascii ''https://a/?u=http://b'') = ascii ''https://a/?u=https://b''
   \<and> (case scrape_original_urls (\<lambda>s t. ascii ''100.0%'')
            (\<lambda>n u. if u = ascii ''https://a/?u=https://b'' then Response 200 (ascii ''ok'') []
                    else OtherException (ascii ''not asked''))
            [ascii ''https://a/?u=http://b''] of
        Inl e \<Rightarrow> False
      | Inr rep \<Rightarrow>
          map url (all_results rep) = [Some (ascii ''https://a/?u=https://b'')]
          \<and> map success (all_results rep) = [Some True])
   \<and> (case scrape_with_error_handling
            (\<lambda>n u. if u = ascii ''https://a/?u=https://b'' then GetResponse 200 2 (ascii ''ok'')
                    else RequestException (ascii ''not asked''))
            [ascii ''https://a/?u=http://b''] of
        Inl e \<Rightarrow> False
      | Inr res \<Rightarrow>
          map url (successful_scrapes res) = [Some (ascii ''https://a/?u=https://b'')])"
  by (simp add: https_url_def ascii_def scrape_original_urls_def test_url_def is_working_def
      empty_result_def Let_def scrape_with_error_handling_def)

text \<open>
  C9. A failure to write the report must not end the process. The \<open>main\<close> of
  simple\_scraper.py catches a failed write, prints a warning and goes on to its last
  line (lemmas \<open>main_save_results_returns\<close> and \<open>main_save_results_warns\<close>); its
  \<open>os.makedirs\<close> just before is outside the \<open>try\<close>, and a failure there does end
  the process (lemma \<open>main_save_results_makedirs_propagates\<close>). The \<open>main\<close> of
  fixed\_scraper.py writes \<open>/workspace/scraping_results.json\<close> outside any \<open>try\<close>:
  the exception of a failed write ends the process.
\<close>

theorem fixed_main_save_results_propagates:
  "fixed_main_save_results (WriteRaises e) console = Inl (Propagated e)"
  by (simp add: fixed_main_save_results_def)

text \<open>
  C10. Every dictionary that \<open>test_url\<close> returns has \<open>success\<close> true and no
  \<open>error\<close> exactly when the request raised nothing; otherwise it has \<open>success\<close>
  false and an \<open>error\<close>; and it has no \<open>status_code\<close> exactly when the request raised
  an exception that is not an \<open>HTTPError\<close>.
\<close>

theorem test_url_result_shape:
  "test_url f u = Inr r \<Longrightarrow>
     ((success r = Some True \<and> error r = None) \<longleftrightarrow> (\<exists>code content hdrs. f u = Response code content hdrs))
     \<and> ((\<forall>code content hdrs. f u \<noteq> Response code content hdrs) \<longrightarrow>
          success r = Some False \<and> error r \<noteq> None)
     \<and> (status_code r = None \<longleftrightarrow> (\<exists>msg. f u = OtherException msg))"
  by (auto simp: test_url_def empty_result_def
      split: urlopen_outcome.splits option.splits read_outcome.splits)

theorem test_url_result_shape_witness:
  "(case test_url (\<lambda>u. OtherException (ascii ''timed out'')) (ascii ''https://example.test/'') of
      Inl e \<Rightarrow> False
    | Inr r \<Rightarrow> success r = Some False \<and> error r = Some (ascii ''timed out'')
               \<and> status_code r = None)
   \<and> (case test_url (\<lambda>u. Response 200 (ascii ''ok'') []) (ascii ''https://example.test/'') of
      Inl e \<Rightarrow> False
    | Inr r \<Rightarrow> success r = Some True \<and> error r = None \<and> status_code r = Some 200)"
proof -
  obtain r where r: "test_url (\<lambda>u. OtherException (ascii ''timed out''))
      (ascii ''https://example.test/'') = Inr r"
    by (simp add: test_url_def)
  obtain r' where r': "test_url (\<lambda>u. Response 200 (ascii ''ok'') [])
      (ascii ''https://example.test/'') = Inr r'"
    by (simp add: test_url_def)
  have e: "error r = Some (ascii ''timed out'')" "status_code r' = Some 200"
    using r r' by (auto simp: test_url_def empty_result_def)
  from test_url_result_shape [OF r] test_url_result_shape [OF r'] e show ?thesis
    by (simp only: r r' sum.case) simp
qed

end
